theory Spec2Isabelle
  imports Main "HOL-Library.Char_ord" "HOL-Library.List_Lexorder" "HOL-Library.AList"
begin

section \<open>Python values, errors and tables\<close>

text \<open>
  The feature store of \<^verbatim>\<open>bytehub/store.py\<close> is embedded shallowly. Identifiers
  (\<^verbatim>\<open>namespace\<close>, \<^verbatim>\<open>name\<close>) are Python values that are either \<^verbatim>\<open>None\<close> or a
  \<^verbatim>\<open>str\<close>: they are \<open>string option\<close>. Keyword arguments and catalog rows are
  dictionaries in insertion order: association lists of Python values.
\<close>

datatype pyval = PNone | PStr string | PInt int | PDict "(string \<times> pyval) list"

datatype kind = Namespace | Feature

text \<open>
  Every \<^verbatim>\<open>raise\<close> of the source is one constructor; the comment gives the Python
  exception and its message.
\<close>

datatype error =
    InvalidArgument string  \<comment> \<open>ValueError: Invalid argument: name\<close>
  | MissingArgument string  \<comment> \<open>ValueError: Missing mandatory argument: name\<close>
  | NoNameColumn  \<comment> \<open>ValueError: DataFrame must have a name column\<close>
  | BadListItem  \<comment> \<open>ValueError: List must contain strings or dicts\<close>
  | BadIdentifier  \<comment> \<open>ValueError: Must supply a string, dataframe or list ...\<close>
  | NotFound kind "string option" "string option"
      \<comment> \<open>RuntimeError: No existing cls named name in namespace\<close>
  | NamespaceNotFound "string option"  \<comment> \<open>ValueError: namespace namespace does not exist\<close>
  | NonEmptyNamespace "string option"
      \<comment> \<open>RuntimeError: name still contains features: these must be deleted first\<close>
  | FeatureNotFound "string option" "string option"
      \<comment> \<open>ValueError: (No) feature named name (does not) exist(s) in namespace\<close>
  | MustSpecifyName  \<comment> \<open>ValueError: Must specify feature name\<close>
  | NoResultFound  \<comment> \<open>sqlalchemy: \<^verbatim>\<open>one()\<close> on an empty result\<close>
  | MultipleResultsFound  \<comment> \<open>sqlalchemy: \<^verbatim>\<open>one()\<close>, \<^verbatim>\<open>one_or_none()\<close> on several rows\<close>
  | IntegrityError  \<comment> \<open>the catalog's uniqueness constraint, at commit\<close>
  | AssertionError  \<comment> \<open>Mode must be either "dask" or "pandas"\<close>
  | NoObjectsToConcatenate  \<comment> \<open>ValueError of \<^verbatim>\<open>pd.concat([])\<close>\<close>
  | InvalidIndexError  \<comment> \<open>pandas: reindexing needs a uniquely valued index\<close>
  | ReduceOfEmptySequence  \<comment> \<open>TypeError of \<^verbatim>\<open>functools.reduce\<close> on \<^verbatim>\<open>[]\<close>\<close>
  | NotImplementedError
  | BackendError string  \<comment> \<open>whatever a feature's storage backend raises\<close>

text \<open>
  A DataFrame: its column labels (duplicates are possible) and its rows in order, each
  the index label with one cell per column. A cell \<open>None\<close> is a missing value.
\<close>

record ('i, 'c) frame =
  columns :: "string list"
  rows :: "('i \<times> 'c option list) list"

section \<open>Identifier Resolver\<close>

text \<open>Python truthiness of \<^verbatim>\<open>None\<close> and of a \<^verbatim>\<open>str\<close>.\<close>

fun truthy :: "string option \<Rightarrow> bool" where
  "truthy None = False"
| "truthy (Some s) = (s \<noteq> [])"

text \<open>\<^verbatim>\<open>str.split(sep)\<close> for a one-character separator, and \<^verbatim>\<open>sep.join(parts)\<close>.\<close>

fun split_on :: "char \<Rightarrow> string \<Rightarrow> string list" where
  "split_on sep [] = [[]]"
| "split_on sep (c # cs) =
     (if c = sep then [] # split_on sep cs
      else (case split_on sep cs of
              [] \<Rightarrow> [[c]]
            | p # ps \<Rightarrow> (c # p) # ps))"

fun join_with :: "string \<Rightarrow> string list \<Rightarrow> string" where
  "join_with sep [] = []"
| "join_with sep [p] = p"
| "join_with sep (p # q # ps) = p @ sep @ join_with sep (q # ps)"

text \<open>
  \<^verbatim>\<open>_split_name\<close>:
  \<^verbatim>\<open>if not namespace and name and "/" in name:
       parts = name.split("/"); namespace, name = parts[0], "/".join(parts[1:])
   return namespace, name\<close>
\<close>

definition split_name :: "string option \<Rightarrow> string option \<Rightarrow> string option \<times> string option" where
  "split_name namespace name =
     (case name of
        None \<Rightarrow> (namespace, name)
      | Some n \<Rightarrow>
          if \<not> truthy namespace \<and> truthy name \<and> CHR ''/'' \<in> set n
          then (let parts = split_on CHR ''/'' n
                in (Some (hd parts), Some (join_with ''/'' (tl parts))))
          else (namespace, name))"

text \<open>
  The inputs of \<^verbatim>\<open>_unpack_list\<close>: a string, a DataFrame, a list whose items are
  strings, dicts or anything else, or any other object. A dict maps a key to \<^verbatim>\<open>None\<close>
  or a string; \<^verbatim>\<open>item.get(k)\<close> is \<^verbatim>\<open>None\<close> for an absent key.
\<close>

datatype item = ItemStr string | ItemDict "(string \<times> string option) list" | ItemOther

datatype 'i obj =
    ObjStr string
  | ObjFrame "('i, string) frame"
  | ObjList "item list"
  | ObjOther

definition dict_get :: "(string \<times> string option) list \<Rightarrow> string \<Rightarrow> string option" where
  "dict_get d k = (case map_of d k of None \<Rightarrow> None | Some v \<Rightarrow> v)"

text \<open>\<^verbatim>\<open>row.get(key, default)\<close> on a row of a DataFrame.\<close>

definition row_get :: "string list \<Rightarrow> 'c option list \<Rightarrow> string \<Rightarrow> 'c option \<Rightarrow> 'c option" where
  "row_get cols cells k dflt = (case map_of (zip cols cells) k of None \<Rightarrow> dflt | Some c \<Rightarrow> c)"

text \<open>The loop over the items of a list, with its accumulator \<^verbatim>\<open>r\<close>.\<close>

fun unpack_items ::
  "string option \<Rightarrow> (string option \<times> string option) list \<Rightarrow> item list
     \<Rightarrow> error + (string option \<times> string option) list" where
  "unpack_items namespace r [] = Inr r"
| "unpack_items namespace r (ItemStr s # its) =
     unpack_items namespace (r @ [split_name namespace (Some s)]) its"
| "unpack_items namespace r (ItemDict d # its) =
     unpack_items namespace
       (r @ [split_name (dict_get d ''namespace'') (dict_get d ''name'')]) its"
| "unpack_items namespace r (ItemOther # its) = Inl BadListItem"

fun unpack_list ::
  "'i obj \<Rightarrow> string option \<Rightarrow> error + (string option \<times> string option) list" where
  "unpack_list (ObjStr s) namespace = Inr [split_name namespace (Some s)]"
| "unpack_list (ObjFrame df) namespace =
     (if ''name'' \<notin> set (columns df) then Inl NoNameColumn
      else Inr (map (\<lambda>(i, cells).
                  (row_get (columns df) cells ''namespace'' namespace,
                   row_get (columns df) cells ''name'' None))
                (rows df)))"
| "unpack_list (ObjList its) namespace = unpack_items namespace [] its"
| "unpack_list ObjOther namespace = Inl BadIdentifier"

section \<open>Argument Validator\<close>

text \<open>
  \<^verbatim>\<open>_validate_kwargs(args, valid, mandatory)\<close>: the first loop raises at the first
  supplied key that is not recognised, the second at the first mandatory key that was not
  supplied. The keys are visited in the dictionary's insertion order.
\<close>

fun check_valid :: "string list \<Rightarrow> string list \<Rightarrow> error + unit" where
  "check_valid valid [] = Inr ()"
| "check_valid valid (name # names) =
     (if name \<notin> set valid then Inl (InvalidArgument name) else check_valid valid names)"

fun check_mandatory :: "string list \<Rightarrow> string list \<Rightarrow> error + unit" where
  "check_mandatory keys [] = Inr ()"
| "check_mandatory keys (name # names) =
     (if name \<notin> set keys then Inl (MissingArgument name) else check_mandatory keys names)"

definition validate_kwargs :: "(string \<times> 'a) list \<Rightarrow> string list \<Rightarrow> string list \<Rightarrow> error + unit" where
  "validate_kwargs args valid mandatory =
     (case check_valid valid (map fst args) of
        Inl e \<Rightarrow> Inl e
      | Inr u \<Rightarrow> check_mandatory (map fst args) mandatory)"

section \<open>Catalog Store\<close>

text \<open>
  A catalog row is the dictionary of its column values; the catalog holds the rows of the
  two entity kinds, and \<open>backend\<close> is the state of the physical time-series storage.
\<close>

type_synonym row = "(string \<times> pyval) list"

record 'b store =
  namespace_table :: "row list"
  feature_table :: "row list"
  backend :: 'b

fun py :: "string option \<Rightarrow> pyval" where
  "py None = PNone"
| "py (Some s) = PStr s"

definition table :: "kind \<Rightarrow> 'b store \<Rightarrow> row list" where
  "table cls st = (case cls of Namespace \<Rightarrow> namespace_table st | Feature \<Rightarrow> feature_table st)"

definition set_table :: "kind \<Rightarrow> row list \<Rightarrow> 'b store \<Rightarrow> 'b store" where
  "set_table cls rs st =
     (case cls of
        Namespace \<Rightarrow> st\<lparr>namespace_table := rs\<rparr>
      | Feature \<Rightarrow> st\<lparr>feature_table := rs\<rparr>)"

text \<open>
  Modelled from the spec: the entity classes of \<^verbatim>\<open>model.py\<close> are missing. An attribute
  of an entity is the value of its column, NULL (\<^verbatim>\<open>None\<close>) when it was never set. A
  Namespace is identified by its name alone, and \<^verbatim>\<open>_create\<close> tests that a namespace
  exists with \<^verbatim>\<open>_exists(model.Namespace, namespace=namespace)\<close>: the Namespace entity
  answers the attribute \<^verbatim>\<open>namespace\<close> with its name.
\<close>

definition attr :: "kind \<Rightarrow> row \<Rightarrow> string \<Rightarrow> pyval" where
  "attr cls r k =
     (case map_of r (if cls = Namespace \<and> k = ''namespace'' then ''name'' else k) of
        None \<Rightarrow> PNone
      | Some v \<Rightarrow> v)"

text \<open>\<^verbatim>\<open>query.filter_by(k=v)\<close>, \<^verbatim>\<open>query.one_or_none()\<close> and \<^verbatim>\<open>query.one()\<close>.\<close>

definition filter_by :: "kind \<Rightarrow> string \<Rightarrow> pyval \<Rightarrow> row list \<Rightarrow> row list" where
  "filter_by cls k v rs = filter (\<lambda>r. attr cls r k = v) rs"

fun one_or_none :: "row list \<Rightarrow> error + row option" where
  "one_or_none [] = Inr None"
| "one_or_none [r] = Inr (Some r)"
| "one_or_none (r # r' # rs) = Inl MultipleResultsFound"

fun one :: "row list \<Rightarrow> error + row" where
  "one [] = Inl NoResultFound"
| "one [r] = Inr r"
| "one (r # r' # rs) = Inl MultipleResultsFound"

text \<open>
  Modelled from the spec: \<^verbatim>\<open>as_dict\<close> and \<^verbatim>\<open>update_from_dict\<close> of \<^verbatim>\<open>model.py\<close> are
  missing. \<^verbatim>\<open>as_dict\<close> is the row itself; \<^verbatim>\<open>update_from_dict(payload)\<close> overwrites the
  fields the payload names and leaves the others untouched.
\<close>

definition update_from_dict :: "row \<Rightarrow> row \<Rightarrow> row" where
  "update_from_dict obj payload = fold (\<lambda>(k, v). AList.update k v) payload obj"

text \<open>
  \<^verbatim>\<open>pd.DataFrame(records)\<close>: the columns are the keys in order of first appearance, a
  record without a key has a missing cell there. \<^verbatim>\<open>df.empty\<close> holds when an axis has
  length zero. \<^verbatim>\<open>df[labels]\<close> selects, for each label in turn, the columns that carry it.
\<close>

definition records_frame :: "row list \<Rightarrow> (nat, pyval) frame" where
  "records_frame rs =
     (let cols = rev (remdups (rev (concat (map (map fst) rs))))
      in \<lparr>columns = cols,
          rows = map (\<lambda>(i, r). (i, map (map_of r) cols)) (enumerate 0 rs)\<rparr>)"

text \<open>\<^verbatim>\<open>index.difference(other)\<close>: the labels not in \<open>other\<close>, unique and sorted.\<close>

definition difference :: "string list \<Rightarrow> string list \<Rightarrow> string list" where
  "difference labels other = sort (remdups (filter (\<lambda>c. c \<notin> set other) labels))"

definition frame_empty :: "('i, 'c) frame \<Rightarrow> bool" where
  "frame_empty df = (columns df = [] \<or> rows df = [])"

definition select_columns :: "('i, 'c) frame \<Rightarrow> string list \<Rightarrow> ('i, 'c) frame" where
  "select_columns df labels =
     \<lparr>columns = concat (map (\<lambda>l. filter (\<lambda>c. c = l) (columns df)) labels),
      rows = map (\<lambda>(i, cells).
                (i, concat (map (\<lambda>l. map snd (filter (\<lambda>(c, x). c = l) (zip (columns df) cells)))
                             labels)))
             (rows df)\<rparr>"

text \<open>
  \<^verbatim>\<open>df.name.str.contains(regex)\<close>: the regular expression is given as the predicate
  "a match is found in this string"; a name that is not a string matches nothing.
\<close>

fun name_matches :: "(string \<Rightarrow> bool) \<Rightarrow> pyval option \<Rightarrow> bool" where
  "name_matches p (Some (PStr s)) = p s"
| "name_matches p c = False"

text \<open>
  The column sort that ends \<^verbatim>\<open>_list\<close>: those of the columns \<^verbatim>\<open>namespace\<close>, \<^verbatim>\<open>name\<close>,
  \<^verbatim>\<open>version\<close>, \<^verbatim>\<open>description\<close>, \<^verbatim>\<open>meta\<close> that the table has come first, the other
  columns follow in sorted order (\<^verbatim>\<open>df.columns.difference(column_order)\<close>).
\<close>

definition sort_columns :: "('i, 'c) frame \<Rightarrow> ('i, 'c) frame" where
  "sort_columns df =
     (let column_order = filter (\<lambda>c. c \<in> set (columns df))
                           [''namespace'', ''name'', ''version'', ''description'', ''meta'']
      in select_columns df (column_order @ difference (columns df) column_order))"

text \<open>
  \<^verbatim>\<open>_list(cls, namespace, name, regex)\<close>. The argument \<open>regex\<close> is \<open>None\<close> for a
  pattern that is \<^verbatim>\<open>None\<close> or empty (the test \<^verbatim>\<open>if regex\<close>).
\<close>

definition list_obj ::
  "kind \<Rightarrow> string option \<Rightarrow> string option \<Rightarrow> (string \<Rightarrow> bool) option \<Rightarrow> 'b store
     \<Rightarrow> (nat, pyval) frame" where
  "list_obj cls namespace name regex st =
     (case split_name namespace name of
        (namespace, name) \<Rightarrow>
          let r = table cls st;
              r = (if truthy namespace then filter_by cls ''namespace'' (py namespace) r else r);
              r = (if truthy name then filter_by cls ''name'' (py name) r else r);
              df = records_frame r
          in if frame_empty df then \<lparr>columns = [], rows = []\<rparr>
             else
               let df = (case regex of
                           None \<Rightarrow> df
                         | Some p \<Rightarrow>
                             df\<lparr>rows := filter (\<lambda>(i, cells).
                                            name_matches p (row_get (columns df) cells ''name'' None))
                                          (rows df)\<rparr>)
               in sort_columns df)"

text \<open>\<^verbatim>\<open>_exists\<close>: \<^verbatim>\<open>not self._list(cls, namespace=namespace, name=name).empty\<close>.\<close>

definition exists_obj :: "kind \<Rightarrow> string option \<Rightarrow> string option \<Rightarrow> 'b store \<Rightarrow> bool" where
  "exists_obj cls namespace name st = (\<not> frame_empty (list_obj cls namespace name None st))"

text \<open>
  The mutating operations run in one session: an exception rolls the session back, so the
  store is returned as it was. \<^verbatim>\<open>_delete\<close> and \<^verbatim>\<open>_update\<close> act on the single row the
  query finds.
\<close>

definition delete_obj ::
  "kind \<Rightarrow> string option \<Rightarrow> string option \<Rightarrow> 'b store \<Rightarrow> (error + unit) \<times> 'b store" where
  "delete_obj cls namespace name st =
     (case split_name namespace name of
        (namespace, name) \<Rightarrow>
          let r = table cls st;
              r = (if truthy namespace then filter_by cls ''namespace'' (py namespace) r else r);
              r = (if truthy name then filter_by cls ''name'' (py name) r else r)
          in case one_or_none r of
               Inl e \<Rightarrow> (Inl e, st)
             | Inr None \<Rightarrow> (Inl (NotFound cls name namespace), st)
             | Inr (Some obj) \<Rightarrow> (Inr (), set_table cls (remove1 obj (table cls st)) st))"

definition update_obj ::
  "kind \<Rightarrow> string option \<Rightarrow> string option \<Rightarrow> row \<Rightarrow> 'b store \<Rightarrow> (error + unit) \<times> 'b store" where
  "update_obj cls namespace name payload st =
     (case split_name namespace name of
        (namespace, name) \<Rightarrow>
          let r = table cls st;
              r = (if truthy namespace then filter_by cls ''namespace'' (py namespace) r else r);
              r = (if truthy name then filter_by cls ''name'' (py name) r else r)
          in case one_or_none r of
               Inl e \<Rightarrow> (Inl e, st)
             | Inr None \<Rightarrow> (Inl (NotFound cls name namespace), st)
             | Inr (Some obj) \<Rightarrow>
                 (Inr (),
                  set_table cls
                    (map (\<lambda>x. if x = obj then update_from_dict obj payload else x) (table cls st))
                    st))"

text \<open>
  Modelled from the spec: the constraints of the catalog's tables are in the missing
  \<^verbatim>\<open>model.py\<close>. The spec names one, uniqueness of an entity's identity (a namespace's
  name, a feature's namespace and name): \<^verbatim>\<open>session.add\<close> of a second row with the same
  identity fails at commit and nothing is inserted.
\<close>

definition session_add :: "kind \<Rightarrow> row \<Rightarrow> 'b store \<Rightarrow> (error + unit) \<times> 'b store" where
  "session_add cls obj st =
     (if \<exists>x \<in> set (table cls st).
           attr cls x ''namespace'' = attr cls obj ''namespace''
           \<and> attr cls x ''name'' = attr cls obj ''name''
      then (Inl IntegrityError, st)
      else (Inr (), set_table cls (table cls st @ [obj]) st))"

text \<open>
  \<^verbatim>\<open>_create\<close>. \<^verbatim>\<open>payload.update\<close> sets \<^verbatim>\<open>name\<close> (and, for a feature, then
  \<^verbatim>\<open>namespace\<close>) in the payload; the new object takes every field of the payload.
\<close>

definition create_obj ::
  "kind \<Rightarrow> string option \<Rightarrow> string option \<Rightarrow> row \<Rightarrow> 'b store \<Rightarrow> (error + unit) \<times> 'b store" where
  "create_obj cls namespace name payload st =
     (case cls of
        Namespace \<Rightarrow>
          session_add cls (update_from_dict [] (AList.update ''name'' (py name) payload)) st
      | Feature \<Rightarrow>
          (case split_name namespace name of
             (namespace, name) \<Rightarrow>
               if \<not> exists_obj Namespace namespace None st
               then (Inl (NamespaceNotFound namespace), st)
               else session_add cls
                      (update_from_dict []
                         (AList.update ''namespace'' (py namespace)
                            (AList.update ''name'' (py name) payload)))
                      st))"

section \<open>Feature Store: namespaces and features\<close>

text \<open>
  The keyword arguments of the listing operations are strings or \<^verbatim>\<open>None\<close>. Python's
  regular expressions are a library: \<open>re pattern s\<close> says whether \<open>pattern\<close> is found
  in \<open>s\<close>, and is a parameter.
\<close>

definition regex_pred ::
  "(string \<Rightarrow> string \<Rightarrow> bool) \<Rightarrow> string option \<Rightarrow> (string \<Rightarrow> bool) option" where
  "regex_pred re regex =
     (case regex of None \<Rightarrow> None | Some pat \<Rightarrow> if pat = [] then None else Some (re pat))"

definition list_namespaces ::
  "(string \<Rightarrow> string \<Rightarrow> bool) \<Rightarrow> (string \<times> string option) list \<Rightarrow> 'b store
     \<Rightarrow> error + (nat, pyval) frame" where
  "list_namespaces re kwargs st =
     (case validate_kwargs kwargs [''name'', ''namespace'', ''regex''] [] of
        Inl e \<Rightarrow> Inl e
      | Inr u \<Rightarrow>
          Inr (list_obj Namespace None
                 (case map_of kwargs ''name'' of
                    None \<Rightarrow> dict_get kwargs ''namespace''
                  | Some v \<Rightarrow> v)
                 (regex_pred re (dict_get kwargs ''regex'')) st))"

definition create_namespace ::
  "string option \<Rightarrow> row \<Rightarrow> 'b store \<Rightarrow> (error + unit) \<times> 'b store" where
  "create_namespace name kwargs st =
     (case validate_kwargs kwargs
             [''description'', ''url'', ''storage_options'', ''meta''] [''url''] of
        Inl e \<Rightarrow> (Inl e, st)
      | Inr u \<Rightarrow> create_obj Namespace None name kwargs st)"

definition update_namespace ::
  "string option \<Rightarrow> row \<Rightarrow> 'b store \<Rightarrow> (error + unit) \<times> 'b store" where
  "update_namespace name kwargs st =
     (case validate_kwargs kwargs [''description'', ''storage_options'', ''meta''] [] of
        Inl e \<Rightarrow> (Inl e, st)
      | Inr u \<Rightarrow> update_obj Namespace None name kwargs st)"

definition list_features ::
  "(string \<Rightarrow> string \<Rightarrow> bool) \<Rightarrow> (string \<times> string option) list \<Rightarrow> 'b store
     \<Rightarrow> error + (nat, pyval) frame" where
  "list_features re kwargs st =
     (case validate_kwargs kwargs [''name'', ''namespace'', ''regex''] [] of
        Inl e \<Rightarrow> Inl e
      | Inr u \<Rightarrow>
          Inr (list_obj Feature (dict_get kwargs ''namespace'') (dict_get kwargs ''name'')
                 (regex_pred re (dict_get kwargs ''regex'')) st))"

definition delete_namespace ::
  "(string \<Rightarrow> string \<Rightarrow> bool) \<Rightarrow> string option \<Rightarrow> 'b store \<Rightarrow> (error + unit) \<times> 'b store" where
  "delete_namespace re name st =
     (case list_features re [(''namespace'', name)] st of
        Inl e \<Rightarrow> (Inl e, st)
      | Inr df \<Rightarrow>
          if \<not> frame_empty df then (Inl (NonEmptyNamespace name), st)
          else delete_obj Namespace None name st)"

definition create_feature ::
  "string option \<Rightarrow> string option \<Rightarrow> row \<Rightarrow> 'b store \<Rightarrow> (error + unit) \<times> 'b store" where
  "create_feature name namespace kwargs st =
     (case validate_kwargs kwargs [''description'', ''meta'', ''partition''] [] of
        Inl e \<Rightarrow> (Inl e, st)
      | Inr u \<Rightarrow> create_obj Feature namespace name kwargs st)"

definition delete_feature ::
  "string option \<Rightarrow> string option \<Rightarrow> 'b store \<Rightarrow> (error + unit) \<times> 'b store" where
  "delete_feature name namespace st = delete_obj Feature namespace name st"

definition update_feature ::
  "string option \<Rightarrow> string option \<Rightarrow> row \<Rightarrow> 'b store \<Rightarrow> (error + unit) \<times> 'b store" where
  "update_feature name namespace kwargs st =
     (case validate_kwargs kwargs [''description'', ''meta''] [] of
        Inl e \<Rightarrow> (Inl e, st)
      | Inr u \<Rightarrow> update_obj Feature namespace name kwargs st)"

section \<open>Feature Store: saving time series\<close>

text \<open>
  \<^verbatim>\<open>df.rename(columns={old: new})\<close>.
\<close>

definition rename_column :: "('i, 'c) frame \<Rightarrow> string \<Rightarrow> string \<Rightarrow> ('i, 'c) frame" where
  "rename_column df old new = df\<lparr>columns := map (\<lambda>c. if c = old then new else c) (columns df)\<rparr>"

text \<open>
  The first loop of the multi-feature branch of \<^verbatim>\<open>save_dataframe\<close>:
  \<^verbatim>\<open>for feature_name in feature_columns:
       if not self._exists(model.Feature, namespace, name): raise ValueError(...)\<close>
  The test is on the arguments \<^verbatim>\<open>namespace\<close> and \<^verbatim>\<open>name\<close> of the call; the loop variable
  \<^verbatim>\<open>feature_name\<close> is not used.
\<close>

fun check_features ::
  "string list \<Rightarrow> string option \<Rightarrow> string option \<Rightarrow> 'b store \<Rightarrow> error + unit" where
  "check_features [] namespace name st = Inr ()"
| "check_features (feature_name # rest) namespace name st =
     (if \<not> exists_obj Feature namespace name st then Inl (FeatureNotFound name namespace)
      else check_features rest namespace name st)"

text \<open>
  \<^verbatim>\<open>save_dataframe(df, name, namespace)\<close>. The storage of a feature
  (\<^verbatim>\<open>feature.save(df)\<close>, in the missing \<^verbatim>\<open>model.py\<close>) is the parameter \<open>fsave\<close>: from
  the feature's row, the frame and the backend's state it gives the new state of the
  backend, or an error that leaves the backend as it was. \<open>save_features\<close> is the second
  loop of the multi-feature branch, which calls \<^verbatim>\<open>self.save_dataframe(feature_df)\<close> for
  each feature column in turn; an exception ends it with the writes made so far in place.
\<close>

function
  save_dataframe ::
    "(row \<Rightarrow> ('i, 'c) frame \<Rightarrow> 'b \<Rightarrow> error + 'b) \<Rightarrow> ('i, 'c) frame \<Rightarrow> string option
       \<Rightarrow> string option \<Rightarrow> 'b store \<Rightarrow> (error + unit) \<times> 'b store"
  and save_features ::
    "(row \<Rightarrow> ('i, 'c) frame \<Rightarrow> 'b \<Rightarrow> error + 'b) \<Rightarrow> ('i, 'c) frame \<Rightarrow> string list
       \<Rightarrow> string list \<Rightarrow> 'b store \<Rightarrow> (error + unit) \<times> 'b store"
where
  "save_dataframe fsave df name namespace st =
     (case difference (columns df) [''time'', ''created_time''] of
        [c] \<Rightarrow>
          (case (if c = ''value''
                 then (if \<not> truthy name then Inl MustSpecifyName else Inr (name, df))
                 else Inr (Some c, rename_column df c ''value'')) of
             Inl e \<Rightarrow> (Inl e, st)
           | Inr (name, df) \<Rightarrow>
               if \<not> exists_obj Feature namespace name st
               then (Inl (FeatureNotFound name namespace), st)
               else
                 (case split_name namespace name of
                    (namespace, name) \<Rightarrow>
                      (case one (filter_by Feature ''namespace'' (py namespace)
                                   (filter_by Feature ''name'' (py name) (feature_table st))) of
                         Inl e \<Rightarrow> (Inl e, st)
                       | Inr feature \<Rightarrow>
                           (case fsave feature df (backend st) of
                              Inl e \<Rightarrow> (Inl e, st)
                            | Inr b \<Rightarrow> (Inr (), st\<lparr>backend := b\<rparr>)))))
      | feature_columns \<Rightarrow>
          (case check_features feature_columns namespace name st of
             Inl e \<Rightarrow> (Inl e, st)
           | Inr u \<Rightarrow> save_features fsave df feature_columns feature_columns st))"
| "save_features fsave df feature_columns [] st = (Inr (), st)"
| "save_features fsave df feature_columns (feature_name # rest) st =
     (case save_dataframe fsave
             (select_columns df (difference (columns df) feature_columns @ [feature_name]))
             None None st of
        (Inl e, st') \<Rightarrow> (Inl e, st')
      | (Inr u, st') \<Rightarrow> save_features fsave df feature_columns rest st')"
  by pat_completeness auto

termination save_dataframe
proof -
  have single:
    "difference (concat (map (\<lambda>l. filter (\<lambda>c. c = l) cols) (difference cols fc @ [f])))
        [''time'', ''created_time''] = [f]"
    if fc: "difference cols [''time'', ''created_time''] = fc" and f: "f \<in> set fc"
    for cols fc f
  proof -
    let ?d = "difference (concat (map (\<lambda>l. filter (\<lambda>c. c = l) cols) (difference cols fc @ [f])))
           [''time'', ''created_time'']"
    have "set fc = set cols - {''time'', ''created_time''}"
      using fc by (auto simp: difference_def)
    then have "set ?d = {f}"
      using f by (auto simp: difference_def)
    moreover have "distinct ?d" by (simp add: difference_def)
    ultimately show ?thesis
      by (cases ?d) (auto simp: insert_eq_iff dest: subset_singletonD)
  qed
  show ?thesis
  proof (relation "measures
    [\<lambda>x. case x of
            Inl (fsave, df, name, namespace, st) \<Rightarrow>
              (if length (difference (columns df) [''time'', ''created_time'']) = 1 then 0 else 2)
          | Inr (fsave, df, feature_columns, fs, st) \<Rightarrow>
              (if \<forall>f \<in> set fs.
                    length (difference
                      (columns (select_columns df (difference (columns df) feature_columns @ [f])))
                      [''time'', ''created_time'']) = 1
               then 1 else (3::nat)),
     \<lambda>x. case x of
            Inl (fsave, df, name, namespace, st) \<Rightarrow> 0
          | Inr (fsave, df, feature_columns, fs, st) \<Rightarrow> length fs]", goal_cases)
    case 1
    then show ?case by simp
  next
    case 2
    then show ?case by simp
  next
    case (3 fsave df name namespace st c1 cs c2 cs' b)
    then have fc: "difference (columns df) [''time'', ''created_time''] = c1 # c2 # cs'"
      by simp
    have "\<forall>f \<in> set (c1 # c2 # cs').
            length (difference
              (columns (select_columns df (difference (columns df) (c1 # c2 # cs') @ [f])))
              [''time'', ''created_time'']) = 1"
      using single [OF fc] by (simp add: select_columns_def)
    then show ?case using fc by simp
  next
    case 4
    then show ?case by simp
  next
    case 5
    then show ?case by simp
  qed
qed

declare save_dataframe.simps [simp del]

section \<open>Feature Store: loading time series\<close>

text \<open>
  Modelled from the spec: \<^verbatim>\<open>feature.load\<close> (in the missing \<^verbatim>\<open>model.py\<close>) returns the
  feature's series of (time, value): a DataFrame indexed by time with the one column
  \<^verbatim>\<open>value\<close>. It is the parameter \<open>fload\<close>, called with the feature's row, the
  arguments \<^verbatim>\<open>from_date\<close>, \<^verbatim>\<open>to_date\<close>, \<^verbatim>\<open>freq\<close>, \<^verbatim>\<open>time_travel\<close>, the mode and the state
  of the backend. A value \<open>None\<close> is a missing value (NaN).
\<close>

type_synonym ('t, 'v) series = "('t \<times> 'v option) list"

record 't load_args =
  from_date :: "'t option"
  to_date :: "'t option"
  freq :: "string option"
  time_travel :: "string option"

definition series_frame :: "('t, 'v) series \<Rightarrow> ('t, 'v) frame" where
  "series_frame s = \<lparr>columns = [''value''], rows = map (\<lambda>(t, v). (t, [v])) s\<rparr>"

text \<open>A value in an f-string, and the column label \<^verbatim>\<open>f"{namespace}/{name}"\<close>.\<close>

fun str_of :: "string option \<Rightarrow> string" where
  "str_of None = ''None''"
| "str_of (Some s) = s"

definition feature_label :: "string option \<Rightarrow> string option \<Rightarrow> string" where
  "feature_label namespace name = str_of namespace @ ''/'' @ str_of name"

text \<open>
  The loop of \<^verbatim>\<open>load_dataframe\<close> over the resolved features, with its accumulator
  \<^verbatim>\<open>dfs\<close>: the feature's row is looked up by name and namespace, its series is loaded and
  its \<^verbatim>\<open>value\<close> column renamed to the feature's label.
\<close>

fun load_features ::
  "(row \<Rightarrow> 't load_args \<Rightarrow> string \<Rightarrow> 'b \<Rightarrow> error + ('t, 'v) series) \<Rightarrow> 't load_args \<Rightarrow> string
     \<Rightarrow> 'b store \<Rightarrow> ('t, 'v) frame list \<Rightarrow> (string option \<times> string option) list
     \<Rightarrow> error + ('t, 'v) frame list" where
  "load_features fload args mode st dfs [] = Inr dfs"
| "load_features fload args mode st dfs ((namespace, name) # fs) =
     (case one_or_none (filter_by Feature ''namespace'' (py namespace)
                          (filter_by Feature ''name'' (py name) (feature_table st))) of
        Inl e \<Rightarrow> Inl e
      | Inr None \<Rightarrow> Inl (FeatureNotFound name namespace)
      | Inr (Some feature) \<Rightarrow>
          (case fload feature args mode (backend st) of
             Inl e \<Rightarrow> Inl e
           | Inr s \<Rightarrow>
               load_features fload args mode st
                 (dfs @ [rename_column (series_frame s) ''value'' (feature_label namespace name)])
                 fs))"

text \<open>
  \<^verbatim>\<open>pd.concat(dfs, join="outer", axis=1)\<close>, as pandas defines it. No frame: an error.
  When all frames have the same index, the rows are put side by side in that order.
  Otherwise every frame is reindexed to the sorted union of the indexes (the indexes are
  time indexes, whose union pandas sorts), a row that a frame does not have being filled
  with missing values; reindexing a frame whose index has a duplicate is an error.
\<close>

fun hconcat_rows :: "('t, 'c) frame list \<Rightarrow> ('t \<times> 'c option list) list" where
  "hconcat_rows [] = []"
| "hconcat_rows [df] = rows df"
| "hconcat_rows (df # df' # dfs) =
     map2 (\<lambda>(t, a) (u, b). (t, a @ b)) (rows df) (hconcat_rows (df' # dfs))"

definition reindex_row :: "('t, 'c) frame \<Rightarrow> 't \<Rightarrow> 'c option list" where
  "reindex_row df t =
     (case map_of (rows df) t of
        None \<Rightarrow> replicate (length (columns df)) None
      | Some cells \<Rightarrow> cells)"

definition pd_concat_outer :: "('t::linorder, 'c) frame list \<Rightarrow> error + ('t, 'c) frame" where
  "pd_concat_outer dfs =
     (case dfs of
        [] \<Rightarrow> Inl NoObjectsToConcatenate
      | df # rest \<Rightarrow>
          if \<forall>d \<in> set rest. map fst (rows d) = map fst (rows df)
          then Inr \<lparr>columns = concat (map columns dfs), rows = hconcat_rows dfs\<rparr>
          else if \<exists>d \<in> set dfs. \<not> distinct (map fst (rows d)) then Inl InvalidIndexError
          else Inr \<lparr>columns = concat (map columns dfs),
                    rows = map (\<lambda>t. (t, concat (map (\<lambda>d. reindex_row d t) dfs)))
                             (sort (remdups (concat (map (\<lambda>d. map fst (rows d)) dfs))))\<rparr>)"

text \<open>
  \<^verbatim>\<open>df.ffill()\<close>: going down the rows, a missing cell takes the value of the cell above
  it (which may itself have been filled); \<open>prev\<close> is the row above, \<open>[]\<close> at the top.
\<close>

fun fill_from :: "'c option list \<Rightarrow> 'c option list \<Rightarrow> 'c option list" where
  "fill_from [] cells = cells"
| "fill_from (p # ps) [] = []"
| "fill_from (p # ps) (c # cs) = (case c of None \<Rightarrow> p | Some v \<Rightarrow> Some v) # fill_from ps cs"

fun ffill_rows :: "'c option list \<Rightarrow> ('t \<times> 'c option list) list \<Rightarrow> ('t \<times> 'c option list) list" where
  "ffill_rows prev [] = []"
| "ffill_rows prev ((t, cells) # rs) =
     (t, fill_from prev cells) # ffill_rows (fill_from prev cells) rs"

definition ffill :: "('t, 'c) frame \<Rightarrow> ('t, 'c) frame" where
  "ffill df = df\<lparr>rows := ffill_rows [] (rows df)\<rparr>"

text \<open>
  \<^verbatim>\<open>dd.merge(left, right, left_index=True, right_index=True, how="outer")\<close>, as the
  materialised result of pandas' and dask's merge on the index: the keys are the sorted
  union of the two indexes; for each key every row of \<open>left\<close> with that key is paired with
  every row of \<open>right\<close> with that key, a side without the key giving one row of missing
  values; a column label that both sides carry gets the suffix \<^verbatim>\<open>_x\<close> on the left and
  \<^verbatim>\<open>_y\<close> on the right.
\<close>

definition rows_at :: "('t, 'c) frame \<Rightarrow> 't \<Rightarrow> 'c option list list" where
  "rows_at df k =
     (case map snd (filter (\<lambda>(t, cells). t = k) (rows df)) of
        [] \<Rightarrow> [replicate (length (columns df)) None]
      | x # xs \<Rightarrow> x # xs)"

definition dd_merge_outer :: "('t::linorder, 'c) frame \<Rightarrow> ('t, 'c) frame \<Rightarrow> ('t, 'c) frame" where
  "dd_merge_outer left right =
     \<lparr>columns = map (\<lambda>c. if c \<in> set (columns right) then c @ ''_x'' else c) (columns left)
                @ map (\<lambda>c. if c \<in> set (columns left) then c @ ''_y'' else c) (columns right),
      rows = concat (map (\<lambda>k. concat (map (\<lambda>a. map (\<lambda>b. (k, a @ b)) (rows_at right k))
                                        (rows_at left k)))
                      (sort (remdups (map fst (rows left) @ map fst (rows right)))))\<rparr>"

text \<open>\<^verbatim>\<open>functools.reduce(f, xs)\<close> without an initial value.\<close>

fun reduce :: "('a \<Rightarrow> 'a \<Rightarrow> 'a) \<Rightarrow> 'a list \<Rightarrow> error + 'a" where
  "reduce f [] = Inl ReduceOfEmptySequence"
| "reduce f (x # xs) = Inr (foldl f x xs)"

text \<open>\<^verbatim>\<open>load_dataframe(features, from_date, to_date, freq, time_travel, mode)\<close>.\<close>

definition load_dataframe ::
  "(row \<Rightarrow> 't load_args \<Rightarrow> string \<Rightarrow> 'b \<Rightarrow> error + ('t::linorder, 'v) series) \<Rightarrow> 'i obj
     \<Rightarrow> 't load_args \<Rightarrow> string \<Rightarrow> 'b store \<Rightarrow> error + ('t, 'v) frame" where
  "load_dataframe fload features args mode st =
     (if mode \<notin> {''dask'', ''pandas''} then Inl AssertionError
      else
        (case unpack_list features None of
           Inl e \<Rightarrow> Inl e
         | Inr fs \<Rightarrow>
             (case load_features fload args mode st [] fs of
                Inl e \<Rightarrow> Inl e
              | Inr dfs \<Rightarrow>
                  if mode = ''pandas''
                  then (case pd_concat_outer dfs of
                          Inl e \<Rightarrow> Inl e
                        | Inr df \<Rightarrow> Inr (ffill df))
                  else if mode = ''dask''
                  then (case reduce dd_merge_outer dfs of
                          Inl e \<Rightarrow> Inl e
                        | Inr df \<Rightarrow> Inr (ffill df))
                  else Inl NotImplementedError)))"

text \<open>
  \<^verbatim>\<open>last(features)\<close>: the dictionary from each feature's label to \<^verbatim>\<open>feature.last()\<close>, the
  parameter \<open>flast\<close>.
\<close>

fun last_features ::
  "(row \<Rightarrow> 'b \<Rightarrow> error + 'v option) \<Rightarrow> 'b store \<Rightarrow> (string \<times> 'v option) list
     \<Rightarrow> (string option \<times> string option) list \<Rightarrow> error + (string \<times> 'v option) list" where
  "last_features flast st result [] = Inr result"
| "last_features flast st result ((namespace, name) # fs) =
     (case one_or_none (filter_by Feature ''namespace'' (py namespace)
                          (filter_by Feature ''name'' (py name) (feature_table st))) of
        Inl e \<Rightarrow> Inl e
      | Inr None \<Rightarrow> Inl (FeatureNotFound name namespace)
      | Inr (Some feature) \<Rightarrow>
          (case flast feature (backend st) of
             Inl e \<Rightarrow> Inl e
           | Inr v \<Rightarrow>
               last_features flast st
                 (AList.update (feature_label namespace name) v result) fs))"

definition last_values ::
  "(row \<Rightarrow> 'b \<Rightarrow> error + 'v option) \<Rightarrow> 'i obj \<Rightarrow> 'b store \<Rightarrow> error + (string \<times> 'v option) list" where
  "last_values flast features st =
     (case unpack_list features None of
        Inl e \<Rightarrow> Inl e
      | Inr fs \<Rightarrow> last_features flast st [] fs)"

text \<open>The task operations are not implemented.\<close>

definition create_task :: "'b store \<Rightarrow> (error + unit) \<times> 'b store" where
  "create_task st = (Inl NotImplementedError, st)"

definition update_task :: "'b store \<Rightarrow> (error + unit) \<times> 'b store" where
  "update_task st = (Inl NotImplementedError, st)"

definition delete_task :: "'b store \<Rightarrow> (error + unit) \<times> 'b store" where
  "delete_task st = (Inl NotImplementedError, st)"

section \<open>Tables that track a list of series\<close>



section \<open>Properties of the Identifier Resolver\<close>

lemma split_on_not_Nil: "split_on sep s \<noteq> []"
  by (induction s) (auto split: list.splits)

lemma hd_split_on: "hd (split_on sep s) = takeWhile (\<lambda>c. c \<noteq> sep) s"
  by (induction s) (auto split: list.splits simp: split_on_not_Nil)

lemma join_split_on: "join_with [sep] (split_on sep s) = s"
proof (induction s)
  case Nil
  then show ?case by simp
next
  case (Cons c cs)
  obtain p ps where sp: "split_on sep cs = p # ps"
    using split_on_not_Nil [of sep cs] by (cases "split_on sep cs") auto
  show ?case
  proof (cases "c = sep")
    case True
    with Cons sp show ?thesis by simp
  next
    case False
    with Cons sp show ?thesis by (cases ps) auto
  qed
qed

lemma join_tl_split_on:
  "sep \<in> set s \<Longrightarrow>
     join_with [sep] (tl (split_on sep s)) = tl (dropWhile (\<lambda>c. c \<noteq> sep) s)"
  by (induction s) (auto split: list.splits simp: split_on_not_Nil join_split_on)

lemma unpack_items_dicts:
  "unpack_items namespace r (map ItemDict ds) =
     Inr (r @ map (\<lambda>d. split_name (dict_get d ''namespace'') (dict_get d ''name'')) ds)"
  by (induction ds arbitrary: r) auto

text \<open>
  C2, as the claim states it, fails: with the non-empty default namespace \<open>d\<close> the string
  \<open>a/b\<close> is not split. The guard \<^verbatim>\<open>not namespace\<close> of \<^verbatim>\<open>_split_name\<close> keeps a supplied
  namespace and the whole string as the name.
\<close>

theorem unpack_list_default_not_overridden:
  "unpack_list (ObjStr ''a/b'' :: nat obj) (Some ''d'') = Inr [(Some ''d'', Some ''a/b'')]
   \<and> unpack_list (ObjStr ''a/b'' :: nat obj) (Some ''d'') \<noteq> Inr [(Some ''a'', Some ''b'')]"
  by (simp add: split_name_def)

text \<open>
  C2, amended: for a string \<open>s\<close> that contains a separator, the Identifier Resolver
  returns one pair. When the default namespace is \<^verbatim>\<open>None\<close> or empty, the namespace is
  the first segment of \<open>s\<close> (everything before the first separator) and the name is the
  remaining segments rejoined (everything after the first separator). When the default
  namespace is a non-empty string, it is kept and the name is the whole of \<open>s\<close>.
\<close>

theorem unpack_list_slash_string:
  "CHR ''/'' \<in> set s \<Longrightarrow>
     unpack_list (ObjStr s) namespace =
       Inr [if truthy namespace then (namespace, Some s)
            else (Some (hd (split_on CHR ''/'' s)),
                  Some (join_with ''/'' (tl (split_on CHR ''/'' s))))]
     \<and> hd (split_on CHR ''/'' s) = takeWhile (\<lambda>c. c \<noteq> CHR ''/'') s
     \<and> join_with ''/'' (tl (split_on CHR ''/'' s)) = tl (dropWhile (\<lambda>c. c \<noteq> CHR ''/'') s)"
  by (auto simp: split_name_def Let_def hd_split_on join_tl_split_on)

theorem unpack_list_slash_string_witness:
  "CHR ''/'' \<in> set ''a/b/c''
   \<and> unpack_list (ObjStr ''a/b/c'' :: nat obj) None = Inr [(Some ''a'', Some ''b/c'')]
   \<and> unpack_list (ObjStr ''a/b/c'' :: nat obj) (Some ''d'') = Inr [(Some ''d'', Some ''a/b/c'')]"
  using unpack_list_slash_string [of "''a/b/c''" None]
    unpack_list_slash_string [of "''a/b/c''" "Some ''d''"]
  by simp

text \<open>
  C10: a list of mappings resolves to the same pairs whatever default namespace the
  caller supplies: each pair comes from the mapping's own \<^verbatim>\<open>namespace\<close> and \<^verbatim>\<open>name\<close>
  entries. A mapping without a \<^verbatim>\<open>namespace\<close> key resolves to namespace \<^verbatim>\<open>None\<close>, unless
  its name contains a separator: then the namespace is the name's first segment.
\<close>

theorem unpack_list_dicts_ignore_default:
  "unpack_list (ObjList (map ItemDict ds)) namespace =
     Inr (map (\<lambda>d. split_name (dict_get d ''namespace'') (dict_get d ''name'')) ds)
   \<and> (\<forall>d \<in> set ds. map_of d ''namespace'' = None \<longrightarrow>
         fst (split_name (dict_get d ''namespace'') (dict_get d ''name'')) =
           (case dict_get d ''name'' of
              None \<Rightarrow> None
            | Some n \<Rightarrow> if CHR ''/'' \<in> set n
                        then Some (takeWhile (\<lambda>c. c \<noteq> CHR ''/'') n) else None))"
  by (auto simp: unpack_items_dicts split_name_def dict_get_def Let_def hd_split_on
           split: option.splits)

theorem unpack_list_dicts_ignore_default_witness:
  "unpack_list (ObjList (map ItemDict [[(''name'', Some ''x/y'')], [(''name'', Some ''z'')]]) :: nat obj)
     (Some ''d'') = Inr [(Some ''x'', Some ''y''), (None, Some ''z'')]"
  using unpack_list_dicts_ignore_default
    [of "[[(''name'', Some ''x/y'')], [(''name'', Some ''z'')]]" "Some ''d''"]
  by (simp add: split_name_def dict_get_def)

section \<open>Properties of the Argument Validator and the Catalog Store\<close>

lemma check_valid_ok: "set names \<subseteq> set valid \<Longrightarrow> check_valid valid names = Inr ()"
  by (induction names) auto

lemma check_valid_bad:
  "\<not> set names \<subseteq> set valid \<Longrightarrow>
     check_valid valid names = Inl (InvalidArgument (hd (filter (\<lambda>k. k \<notin> set valid) names)))"
  by (induction names) auto

lemma validate_kwargs_bad:
  "\<not> fst ` set args \<subseteq> set valid \<Longrightarrow>
     validate_kwargs args valid mandatory =
       Inl (InvalidArgument (hd (filter (\<lambda>k. k \<notin> set valid) (map fst args))))"
  by (simp add: validate_kwargs_def check_valid_bad)

lemma validate_kwargs_ok:
  "fst ` set args \<subseteq> set valid \<Longrightarrow>
     validate_kwargs args valid mandatory = check_mandatory (map fst args) mandatory"
  by (simp add: validate_kwargs_def check_valid_ok)

lemma records_frame_rows_empty [simp]: "rows (records_frame rs) = [] \<longleftrightarrow> rs = []"
  by (simp add: records_frame_def Let_def enumerate_eq_zip)

lemma set_columns_records_frame: "set (columns (records_frame rs)) = (\<Union>r \<in> set rs. fst ` set r)"
  by (simp add: records_frame_def Let_def)

lemma attr_Namespace_namespace: "attr Namespace r ''namespace'' = attr Namespace r ''name''"
  by (simp add: attr_def)

lemma set_columns_select:
  "set (columns (select_columns df labels)) = set (columns df) \<inter> set labels"
  by (auto simp: select_columns_def)

lemma rows_select_empty: "rows (select_columns df labels) = [] \<longleftrightarrow> rows df = []"
  by (simp add: select_columns_def)

lemma frame_empty_sort_columns: "frame_empty (sort_columns df) = frame_empty df"
proof -
  define pref where "pref = [''namespace'', ''name'', ''version'', ''description'', ''meta'']"
  define labels where "labels = filter (\<lambda>c. c \<in> set (columns df)) pref
       @ difference (columns df) (filter (\<lambda>c. c \<in> set (columns df)) pref)"
  have sc: "sort_columns df = select_columns df labels"
    unfolding sort_columns_def Let_def labels_def pref_def ..
  have "set (columns df) \<subseteq> set labels"
    by (auto simp: labels_def difference_def)
  then have "set (columns (select_columns df labels)) = set (columns df)"
    by (auto simp: set_columns_select)
  then have "columns (select_columns df labels) = [] \<longleftrightarrow> columns df = []"
    by (metis set_empty)
  then show ?thesis
    unfolding sc frame_empty_def by (simp add: rows_select_empty)
qed

lemma exists_obj_iff:
  "exists_obj cls namespace name st \<longleftrightarrow>
     \<not> frame_empty (records_frame
          ((if truthy (snd (split_name namespace name))
            then filter_by cls ''name'' (py (snd (split_name namespace name))) else id)
           ((if truthy (fst (split_name namespace name))
             then filter_by cls ''namespace'' (py (fst (split_name namespace name))) else id)
            (table cls st))))"
proof -
  obtain ns nm where sp: "split_name namespace name = (ns, nm)"
    by (cases "split_name namespace name")
  have "frame_empty (\<lparr>columns = [], rows = []\<rparr> :: (nat, pyval) frame)"
    by (simp add: frame_empty_def)
  then show ?thesis
    unfolding exists_obj_def list_obj_def sp
    by (simp add: Let_def frame_empty_sort_columns)
qed

lemma not_exists_Namespace:
  assumes "n \<noteq> []" and "\<forall>r \<in> set (namespace_table st). attr Namespace r ''name'' \<noteq> PStr n"
  shows "\<not> exists_obj Namespace (Some n) None st"
proof -
  have "filter_by Namespace ''namespace'' (PStr n) (namespace_table st) = []"
    using assms(2) by (auto simp: filter_by_def attr_Namespace_namespace filter_empty_conv)
  then show ?thesis
    using assms(1)
    by (simp add: exists_obj_iff split_name_def table_def frame_empty_def)
qed

lemma exists_feature_in_namespace:
  assumes "r \<in> set (feature_table st)" and "attr Feature r ''namespace'' = PStr n"
  shows "exists_obj Feature (Some n) None st"
proof -
  define rs where "rs = (if n \<noteq> [] then filter_by Feature ''namespace'' (PStr n) (feature_table st)
                         else feature_table st)"
  have r_in: "r \<in> set rs"
    using assms by (simp add: rs_def filter_by_def)
  have key: "''namespace'' \<in> fst ` set r"
    using assms(2) by (auto simp: attr_def split: option.splits dest!: map_of_SomeD intro: rev_image_eqI)
  have cols: "''namespace'' \<in> set (columns (records_frame rs))"
    using r_in key by (auto simp: set_columns_records_frame)
  have rows: "rows (records_frame rs) \<noteq> []"
    using r_in by auto
  have ne: "\<not> frame_empty (records_frame rs)"
    using cols rows by (auto simp: frame_empty_def)
  then show ?thesis
    unfolding exists_obj_iff by (cases "n = []") (simp_all add: split_name_def rs_def table_def)
qed

lemma map_of_update_from_dict_other:
  "k \<notin> fst ` set payload \<Longrightarrow> map_of (update_from_dict obj payload) k = map_of obj k"
  unfolding update_from_dict_def
  by (induction payload arbitrary: obj) (auto simp: update_conv')

lemma table_set_table [simp]: "table cls (set_table cls rs st) = rs"
  by (cases cls) (simp_all add: table_def set_table_def)

lemma update_obj_keeps_attr:
  assumes "k \<notin> fst ` set payload" and "k \<noteq> ''namespace''"
  shows "map (\<lambda>r. attr cls r k) (table cls (snd (update_obj cls namespace name payload st)))
         = map (\<lambda>r. attr cls r k) (table cls st)"
proof -
  obtain ns nm where sp: "split_name namespace name = (ns, nm)"
    by (cases "split_name namespace name")
  define rs where "rs = (if truthy nm then filter_by cls ''name'' (py nm) else id)
       ((if truthy ns then filter_by cls ''namespace'' (py ns) else id) (table cls st))"
  have uo: "update_obj cls namespace name payload st =
      (case one_or_none rs of
         Inl e \<Rightarrow> (Inl e, st)
       | Inr None \<Rightarrow> (Inl (NotFound cls nm ns), st)
       | Inr (Some obj) \<Rightarrow>
           (Inr (), set_table cls
              (map (\<lambda>x. if x = obj then update_from_dict obj payload else x) (table cls st)) st))"
    unfolding update_obj_def sp rs_def by (simp add: Let_def)
  have same: "attr cls (update_from_dict obj payload) k = attr cls obj k" for obj
    using assms by (simp add: attr_def map_of_update_from_dict_other)
  show ?thesis
  proof (cases "one_or_none rs")
    case (Inl e)
    then show ?thesis by (simp add: uo)
  next
    case (Inr found)
    then show ?thesis
    proof (cases found)
      case None
      with Inr show ?thesis by (simp add: uo)
    next
      case (Some obj)
      with Inr show ?thesis by (simp add: uo same cong: map_cong)
    qed
  qed
qed

text \<open>
  C5, as the claim states it, fails: the keyword arguments are validated before the
  namespace is looked up, so a call that names a missing namespace and carries an
  unrecognised keyword fails with the invalid-argument error.
\<close>

theorem create_feature_invalid_kwarg_first:
  "filter (\<lambda>r. attr Namespace r ''name'' = PStr ''nope'')
     [[(''name'', PStr ''demo''), (''url'', PStr ''file:///tmp/demo'')]] = []
   \<and> create_feature (Some ''f'') (Some ''nope'') [(''bogus'', PNone)]
        \<lparr>namespace_table = [[(''name'', PStr ''demo''), (''url'', PStr ''file:///tmp/demo'')]],
         feature_table = [], backend = ()\<rparr>
      = (Inl (InvalidArgument ''bogus''),
         \<lparr>namespace_table = [[(''name'', PStr ''demo''), (''url'', PStr ''file:///tmp/demo'')]],
          feature_table = [], backend = ()\<rparr>)
   \<and> fst (create_feature (Some ''f'') (Some ''nope'') [(''bogus'', PNone)]
        \<lparr>namespace_table = [[(''name'', PStr ''demo''), (''url'', PStr ''file:///tmp/demo'')]],
         feature_table = [], backend = ()\<rparr>)
      \<noteq> Inl (NamespaceNotFound (Some ''nope''))"
  by (simp add: create_feature_def validate_kwargs_def attr_def)

text \<open>
  C5, amended: a call to \<^verbatim>\<open>create_feature\<close> that names (explicitly, or through a
  \<^verbatim>\<open>namespace/name\<close> string) a non-empty namespace \<open>n\<close> that no namespace row carries
  always fails and leaves the store as it was; when every keyword argument is one of
  \<^verbatim>\<open>description\<close>, \<^verbatim>\<open>meta\<close>, \<^verbatim>\<open>partition\<close>, the error is the namespace-not-found error
  for \<open>n\<close>; otherwise it is the invalid-argument error for the first keyword that is not
  one of these, raised by the validation that runs before the namespace is looked up.
\<close>

theorem create_feature_missing_namespace:
  assumes "split_name namespace name = (Some n, nm)" and "n \<noteq> []"
    and "\<forall>r \<in> set (namespace_table st). attr Namespace r ''name'' \<noteq> PStr n"
  shows "snd (create_feature name namespace kwargs st) = st
       \<and> (\<exists>e. fst (create_feature name namespace kwargs st) = Inl e)
       \<and> (fst ` set kwargs \<subseteq> {''description'', ''meta'', ''partition''} \<longrightarrow>
            fst (create_feature name namespace kwargs st) = Inl (NamespaceNotFound (Some n)))
       \<and> (\<not> fst ` set kwargs \<subseteq> {''description'', ''meta'', ''partition''} \<longrightarrow>
            fst (create_feature name namespace kwargs st) =
              Inl (InvalidArgument
                    (hd (filter (\<lambda>k. k \<notin> {''description'', ''meta'', ''partition''})
                           (map fst kwargs)))))"
proof -
  have ne: "\<not> exists_obj Namespace (Some n) None st"
    using not_exists_Namespace [OF assms(2,3)] .
  have co: "create_obj Feature namespace name kwargs st = (Inl (NamespaceNotFound (Some n)), st)"
    using assms(1) ne by (simp add: create_obj_def)
  show ?thesis
  proof (cases "fst ` set kwargs \<subseteq> {''description'', ''meta'', ''partition''}")
    case True
    then have "validate_kwargs kwargs [''description'', ''meta'', ''partition''] [] = Inr ()"
      using validate_kwargs_ok [of kwargs "[''description'', ''meta'', ''partition'']" "[]"] by simp
    then have "create_feature name namespace kwargs st = (Inl (NamespaceNotFound (Some n)), st)"
      using co by (simp add: create_feature_def)
    then show ?thesis using True by simp
  next
    case False
    then have "create_feature name namespace kwargs st =
        (Inl (InvalidArgument
               (hd (filter (\<lambda>k. k \<notin> {''description'', ''meta'', ''partition''})
                      (map fst kwargs)))), st)"
      using validate_kwargs_bad [of kwargs "[''description'', ''meta'', ''partition'']" "[]"]
      by (simp add: create_feature_def)
    then show ?thesis using False by simp
  qed
qed

theorem create_feature_missing_namespace_witness:
  "split_name None (Some ''nope/f'') = (Some ''nope'', Some ''f'') \<and> ''nope'' \<noteq> []
   \<and> filter (\<lambda>r. attr Namespace r ''name'' = PStr ''nope'')
        [[(''name'', PStr ''demo''), (''url'', PStr ''file:///tmp/demo'')]] = []
   \<and> create_feature (Some ''nope/f'') None [(''description'', PStr ''d'')]
        \<lparr>namespace_table = [[(''name'', PStr ''demo''), (''url'', PStr ''file:///tmp/demo'')]],
         feature_table = [], backend = ()\<rparr>
      = (Inl (NamespaceNotFound (Some ''nope'')),
         \<lparr>namespace_table = [[(''name'', PStr ''demo''), (''url'', PStr ''file:///tmp/demo'')]],
          feature_table = [], backend = ()\<rparr>)
   \<and> create_feature (Some ''nope/f'') None [(''meta'', PNone), (''bogus'', PNone)]
        \<lparr>namespace_table = [[(''name'', PStr ''demo''), (''url'', PStr ''file:///tmp/demo'')]],
         feature_table = [], backend = ()\<rparr>
      = (Inl (InvalidArgument ''bogus''),
         \<lparr>namespace_table = [[(''name'', PStr ''demo''), (''url'', PStr ''file:///tmp/demo'')]],
          feature_table = [], backend = ()\<rparr>)"
proof -
  have sp: "split_name None (Some ''nope/f'') = (Some ''nope'', Some ''f'')"
    by (simp add: split_name_def)
  have ne: "''nope'' \<noteq> []" by simp
  have ab: "\<forall>r \<in> set (namespace_table
        \<lparr>namespace_table = [[(''name'', PStr ''demo''), (''url'', PStr ''file:///tmp/demo'')]],
         feature_table = [], backend = ()\<rparr>). attr Namespace r ''name'' \<noteq> PStr ''nope''"
    by (simp add: attr_def)
  show ?thesis
    using sp create_feature_missing_namespace [OF sp ne ab, of "[(''description'', PStr ''d'')]"]
      create_feature_missing_namespace [OF sp ne ab, of "[(''meta'', PNone), (''bogus'', PNone)]"]
    by (simp add: prod_eq_iff attr_def)
qed

text \<open>
  The namespace check of \<^verbatim>\<open>_create\<close> filters only by a truthy namespace: for the empty
  namespace (here from the string \<open>/x\<close>) it passes as soon as any namespace exists, and
  the feature row is inserted.
\<close>

lemma create_feature_empty_namespace:
  "create_feature (Some ''/x'') None []
     \<lparr>namespace_table = [[(''name'', PStr ''demo''), (''url'', PStr ''file:///tmp/demo'')]],
      feature_table = [], backend = ()\<rparr>
   = (Inr (),
      \<lparr>namespace_table = [[(''name'', PStr ''demo''), (''url'', PStr ''file:///tmp/demo'')]],
       feature_table = [[(''name'', PStr ''x''), (''namespace'', PStr [])]], backend = ()\<rparr>)"
  by (simp add: create_feature_def validate_kwargs_def create_obj_def split_name_def
        exists_obj_iff table_def records_frame_def frame_empty_def enumerate_eq_zip
        session_add_def set_table_def update_from_dict_def attr_def)

text \<open>
  C6: when a feature row references the namespace \<open>n\<close>, \<^verbatim>\<open>delete_namespace\<close> on \<open>n\<close>
  fails with the non-empty-namespace error, and the store (the namespace row, every
  feature row, the backend) is returned unchanged.
\<close>

theorem delete_namespace_nonempty:
  assumes "r \<in> set (feature_table st)" and "attr Feature r ''namespace'' = PStr n"
  shows "delete_namespace re (Some n) st = (Inl (NonEmptyNamespace (Some n)), st)"
  using exists_feature_in_namespace [OF assms]
  by (simp add: delete_namespace_def list_features_def validate_kwargs_def dict_get_def
        regex_pred_def exists_obj_def)


theorem delete_namespace_nonempty_witness:
  "delete_namespace (\<lambda>pat s. False) (Some ''demo'')
     \<lparr>namespace_table = [[(''name'', PStr ''demo''), (''url'', PStr ''file:///tmp/demo'')]],
      feature_table = [[(''name'', PStr ''price''), (''namespace'', PStr ''demo'')]],
      backend = ()\<rparr>
   = (Inl (NonEmptyNamespace (Some ''demo'')),
      \<lparr>namespace_table = [[(''name'', PStr ''demo''), (''url'', PStr ''file:///tmp/demo'')]],
       feature_table = [[(''name'', PStr ''price''), (''namespace'', PStr ''demo'')]],
       backend = ()\<rparr>)"
  using delete_namespace_nonempty
    [of "[(''name'', PStr ''price''), (''namespace'', PStr ''demo'')]"
        "\<lparr>namespace_table = [[(''name'', PStr ''demo''), (''url'', PStr ''file:///tmp/demo'')]],
          feature_table = [[(''name'', PStr ''price''), (''namespace'', PStr ''demo'')]],
          backend = ()\<rparr>" "''demo''" "\<lambda>pat s. False"]
  by (simp add: attr_def)

text \<open>
  C7, as the claim states it, fails: the validator looks for unrecognised keywords first,
  so a call without \<^verbatim>\<open>url\<close> that carries an unrecognised keyword fails with the
  invalid-argument error, not with the missing-argument error.
\<close>

theorem create_namespace_invalid_before_missing:
  "''url'' \<notin> fst ` set [(''bogus'', PNone)]
   \<and> create_namespace (Some ''n'') [(''bogus'', PNone)]
        \<lparr>namespace_table = [], feature_table = [], backend = ()\<rparr>
      = (Inl (InvalidArgument ''bogus''),
         \<lparr>namespace_table = [], feature_table = [], backend = ()\<rparr>)
   \<and> fst (create_namespace (Some ''n'') [(''bogus'', PNone)]
        \<lparr>namespace_table = [], feature_table = [], backend = ()\<rparr>)
      \<noteq> Inl (MissingArgument ''url'')"
  by (simp add: create_namespace_def validate_kwargs_def)

text \<open>
  C7, amended: if any supplied keyword is outside \<^verbatim>\<open>description\<close>, \<^verbatim>\<open>url\<close>,
  \<^verbatim>\<open>storage_options\<close>, \<^verbatim>\<open>meta\<close>, \<^verbatim>\<open>create_namespace\<close> fails with the invalid-argument
  error for the first such keyword; if every supplied keyword is recognised and \<^verbatim>\<open>url\<close>
  is absent, it fails with the missing-argument error for \<^verbatim>\<open>url\<close>. In both cases the
  store is unchanged: no namespace row is created.
\<close>

theorem create_namespace_validation:
  "(\<not> fst ` set kwargs \<subseteq> {''description'', ''url'', ''storage_options'', ''meta''} \<longrightarrow>
      create_namespace name kwargs st =
        (Inl (InvalidArgument
               (hd (filter (\<lambda>k. k \<notin> {''description'', ''url'', ''storage_options'', ''meta''})
                      (map fst kwargs)))), st))
   \<and> (fst ` set kwargs \<subseteq> {''description'', ''url'', ''storage_options'', ''meta''}
        \<and> ''url'' \<notin> fst ` set kwargs \<longrightarrow>
      create_namespace name kwargs st = (Inl (MissingArgument ''url''), st))"
  using validate_kwargs_bad [of kwargs "[''description'', ''url'', ''storage_options'', ''meta'']" "[''url'']"]
    validate_kwargs_ok [of kwargs "[''description'', ''url'', ''storage_options'', ''meta'']" "[''url'']"]
  by (auto simp: create_namespace_def)

theorem create_namespace_validation_witness:
  "create_namespace (Some ''n'') [(''url'', PStr ''u''), (''bogus'', PNone)]
        \<lparr>namespace_table = [], feature_table = [], backend = ()\<rparr>
      = (Inl (InvalidArgument ''bogus''),
         \<lparr>namespace_table = [], feature_table = [], backend = ()\<rparr>)
   \<and> create_namespace (Some ''n'') [(''description'', PStr ''d'')]
        \<lparr>namespace_table = [], feature_table = [], backend = ()\<rparr>
      = (Inl (MissingArgument ''url''),
         \<lparr>namespace_table = [], feature_table = [], backend = ()\<rparr>)"
  using create_namespace_validation
     [of "[(''url'', PStr ''u''), (''bogus'', PNone)]" "Some ''n''"
         "\<lparr>namespace_table = [], feature_table = [], backend = ()\<rparr>"]
    create_namespace_validation
     [of "[(''description'', PStr ''d'')]" "Some ''n''"
         "\<lparr>namespace_table = [], feature_table = [], backend = ()\<rparr>"]
  by simp

text \<open>
  C8: a call to \<^verbatim>\<open>update_namespace\<close> that supplies \<^verbatim>\<open>url\<close> fails with an
  invalid-argument error and returns the store unchanged; and whatever the arguments, the
  \<^verbatim>\<open>url\<close> of every namespace row is the same after \<^verbatim>\<open>update_namespace\<close> as before.
\<close>

theorem update_namespace_rejects_url:
  "(''url'' \<in> fst ` set kwargs \<longrightarrow>
      (\<exists>k. update_namespace name kwargs st = (Inl (InvalidArgument k), st)))
   \<and> map (\<lambda>r. attr Namespace r ''url'') (namespace_table (snd (update_namespace name kwargs st)))
       = map (\<lambda>r. attr Namespace r ''url'') (namespace_table st)"
proof (cases "fst ` set kwargs \<subseteq> {''description'', ''storage_options'', ''meta''}")
  case True
  then have v: "validate_kwargs kwargs [''description'', ''storage_options'', ''meta''] [] = Inr ()"
    using validate_kwargs_ok [of kwargs "[''description'', ''storage_options'', ''meta'']" "[]"] by simp
  have nu: "''url'' \<notin> fst ` set kwargs" using True by auto
  show ?thesis
    using update_obj_keeps_attr [of "''url''" kwargs Namespace None name st] nu v
    by (simp add: update_namespace_def table_def)
next
  case False
  then show ?thesis
    using validate_kwargs_bad [of kwargs "[''description'', ''storage_options'', ''meta'']" "[]"]
    by (simp add: update_namespace_def)
qed

theorem update_namespace_rejects_url_witness:
  "update_namespace (Some ''demo'') [(''url'', PStr ''file:///elsewhere'')]
     \<lparr>namespace_table = [[(''name'', PStr ''demo''), (''url'', PStr ''file:///tmp/demo'')]],
      feature_table = [], backend = ()\<rparr>
   = (Inl (InvalidArgument ''url''),
      \<lparr>namespace_table = [[(''name'', PStr ''demo''), (''url'', PStr ''file:///tmp/demo'')]],
       feature_table = [], backend = ()\<rparr>)"
  using update_namespace_rejects_url
    [of "[(''url'', PStr ''file:///elsewhere'')]" "Some ''demo''"
        "\<lparr>namespace_table = [[(''name'', PStr ''demo''), (''url'', PStr ''file:///tmp/demo'')]],
          feature_table = [], backend = ()\<rparr>"]
  by (simp add: update_namespace_def validate_kwargs_def)

section \<open>Properties of saving\<close>

lemma difference_empty:
  "set labels \<subseteq> set other \<Longrightarrow> difference labels other = []"
proof -
  assume "set labels \<subseteq> set other"
  then have "filter (\<lambda>c. c \<notin> set other) labels = []"
    by (auto simp: filter_empty_conv)
  then show ?thesis by (simp add: difference_def)
qed

text \<open>
  C1 does not hold of the code. The catalog has the feature \<open>ns/a\<close> and no feature
  \<open>ns/b\<close>; the frame has the feature columns \<open>ns/a\<close> and \<open>ns/b\<close>, and the backend
  records every save. The pre-check loop tests \<^verbatim>\<open>_exists(model.Feature, namespace, name)\<close>
  with the arguments of the call (both \<^verbatim>\<open>None\<close>), which holds as soon as the catalog has
  any feature, so it passes; the series of \<open>ns/a\<close> is written to the backend, and only
  then does the call fail for \<open>ns/b\<close>.
\<close>

theorem save_dataframe_multi_partial_write:
  "\<not> exists_obj Feature None (Some ''ns/b'')
      \<lparr>namespace_table = [[(''name'', PStr ''ns''), (''url'', PStr ''file:///tmp/ns'')]],
       feature_table = [[(''name'', PStr ''a''), (''namespace'', PStr ''ns'')]],
       backend = ([] :: (row \<times> (nat, int) frame) list)\<rparr>
   \<and> check_features [''ns/a'', ''ns/b''] None None
      \<lparr>namespace_table = [[(''name'', PStr ''ns''), (''url'', PStr ''file:///tmp/ns'')]],
       feature_table = [[(''name'', PStr ''a''), (''namespace'', PStr ''ns'')]],
       backend = ([] :: (row \<times> (nat, int) frame) list)\<rparr> = Inr ()
   \<and> save_dataframe (\<lambda>feature df b. Inr (b @ [(feature, df)]))
      \<lparr>columns = [''time'', ''ns/a'', ''ns/b''],
       rows = [(0::nat, [Some (1::int), Some 10, Some 20])]\<rparr>
      None None
      \<lparr>namespace_table = [[(''name'', PStr ''ns''), (''url'', PStr ''file:///tmp/ns'')]],
       feature_table = [[(''name'', PStr ''a''), (''namespace'', PStr ''ns'')]],
       backend = []\<rparr>
     = (Inl (FeatureNotFound (Some ''ns/b'') None),
        \<lparr>namespace_table = [[(''name'', PStr ''ns''), (''url'', PStr ''file:///tmp/ns'')]],
         feature_table = [[(''name'', PStr ''a''), (''namespace'', PStr ''ns'')]],
         backend = [([(''name'', PStr ''a''), (''namespace'', PStr ''ns'')],
                     \<lparr>columns = [''time'', ''value''], rows = [(0, [Some 1, Some 10])]\<rparr>)]\<rparr>)"
  by code_simp

text \<open>
  C9: for a frame whose columns are all among \<^verbatim>\<open>time\<close> and \<^verbatim>\<open>created_time\<close>,
  \<^verbatim>\<open>save_dataframe\<close> returns normally with the store (catalog and backend) unchanged,
  whatever the catalog holds and whatever the backend's save would do: no existence check
  and no save decides the result.
\<close>

theorem save_dataframe_no_feature_columns:
  "set (columns df) \<subseteq> {''time'', ''created_time''} \<Longrightarrow>
     save_dataframe fsave df name namespace st = (Inr (), st)"
  using difference_empty [of "columns df" "[''time'', ''created_time'']"]
  by (simp add: save_dataframe.simps)

theorem save_dataframe_no_feature_columns_witness:
  "save_dataframe (\<lambda>feature df b. Inl (BackendError ''read-only''))
     \<lparr>columns = [''time'', ''created_time''], rows = [(0::nat, [Some (1::int), Some 2])]\<rparr>
     (Some ''price'') (Some ''demo'')
     \<lparr>namespace_table = [], feature_table = [], backend = ()\<rparr>
   = (Inr (), \<lparr>namespace_table = [], feature_table = [], backend = ()\<rparr>)"
  using save_dataframe_no_feature_columns
    [of "\<lparr>columns = [''time'', ''created_time''], rows = [(0::nat, [Some (1::int), Some 2])]\<rparr>"
        "\<lambda>feature df b. Inl (BackendError ''read-only'')" "Some ''price''" "Some ''demo''"
        "\<lparr>namespace_table = [], feature_table = [], backend = ()\<rparr>"]
  by simp

section \<open>Properties of loading\<close>












































text \<open>
  C4 does not hold of the code. The catalog has the feature \<open>ns/a\<close>, whose series is the
  same in both modes, and the request names it twice. In the mode \<^verbatim>\<open>pandas\<close> the two
  columns of the result both carry the label \<^verbatim>\<open>ns/a\<close>; in the mode \<^verbatim>\<open>dask\<close> the merge
  renames them to \<^verbatim>\<open>ns/a_x\<close> and \<^verbatim>\<open>ns/a_y\<close>. The rows are the same.
\<close>

theorem load_dataframe_modes_differ_on_repeated_feature:
  "load_dataframe
     (\<lambda>feature (args :: nat load_args) (mode :: string) (b :: unit).
        (Inr [(1::nat, Some (10::int)), (2, Some 20)] :: error + (nat \<times> int option) list))
     (ObjList [ItemStr ''ns/a'', ItemStr ''ns/a''] :: nat obj)
     \<lparr>from_date = None, to_date = None, freq = None, time_travel = None\<rparr> ''pandas''
     \<lparr>namespace_table = [[(''name'', PStr ''ns''), (''url'', PStr ''u'')]],
      feature_table = [[(''name'', PStr ''a''), (''namespace'', PStr ''ns'')]],
      backend = ()\<rparr>
   = Inr \<lparr>columns = [''ns/a'', ''ns/a''],
          rows = [(1, [Some 10, Some 10]), (2, [Some 20, Some 20])]\<rparr>
   \<and> load_dataframe
     (\<lambda>feature (args :: nat load_args) (mode :: string) (b :: unit).
        (Inr [(1::nat, Some (10::int)), (2, Some 20)] :: error + (nat \<times> int option) list))
     (ObjList [ItemStr ''ns/a'', ItemStr ''ns/a''] :: nat obj)
     \<lparr>from_date = None, to_date = None, freq = None, time_travel = None\<rparr> ''dask''
     \<lparr>namespace_table = [[(''name'', PStr ''ns''), (''url'', PStr ''u'')]],
      feature_table = [[(''name'', PStr ''a''), (''namespace'', PStr ''ns'')]],
      backend = ()\<rparr>
   = Inr \<lparr>columns = [''ns/a_x'', ''ns/a_y''],
          rows = [(1, [Some 10, Some 10]), (2, [Some 20, Some 20])]\<rparr>"
  by code_simp

end
